theory Spec2Isabelle
  imports Main
begin

section \<open>Asynchronous functions as logged actions\<close>

text \<open>
  Every function of the facade is an async function that talks to three collaborators
  reached through the build context (the CLI client, the hub, the logger) and either
  returns or throws. An action is the ordered log of what the function did to its
  collaborators together with its completion: \<open>Inr a\<close> when the promise resolves with
  \<open>a\<close>, \<open>Inl e\<close> when it rejects with \<open>e\<close>. The steps are awaited one after the
  other, so sequencing appends logs and stops at the first rejection.
\<close>

type_synonym ('ev, 'e, 'a) action = "'ev list \<times> ('e + 'a)"

definition throw :: "'e \<Rightarrow> ('ev, 'e, 'a) action" where
  "throw e = ([], Inl e)"

definition emit :: "'ev \<Rightarrow> ('ev, 'e, unit) action" where
  "emit ev = ([ev], Inr ())"

definition andThen :: "('ev, 'e, 'a) action \<Rightarrow> ('a \<Rightarrow> ('ev, 'e, 'b) action) \<Rightarrow> ('ev, 'e, 'b) action" where
  "andThen m f =
     (case m of
        (t, Inl e) \<Rightarrow> (t, Inl e)
      | (t, Inr a) \<Rightarrow> (case f a of (t', r) \<Rightarrow> (t @ t', r)))"

text \<open>\<^verbatim>\<open>try { m } catch (e) { h(e) }\<close>: the handler runs only when the body throws.\<close>

definition try_catch :: "('ev, 'e, 'a) action \<Rightarrow> ('e \<Rightarrow> ('ev, 'e, 'a) action) \<Rightarrow> ('ev, 'e, 'a) action" where
  "try_catch m h =
     (case m of
        (t, Inl e) \<Rightarrow> (case h e of (t', r) \<Rightarrow> (t @ t', r))
      | (t, Inr a) \<Rightarrow> (t, Inr a))"

text \<open>
  \<^verbatim>\<open>try { m } finally { fin }\<close>: the cleanup runs on every completion of the body; the body's
  completion is kept unless the cleanup itself throws.
\<close>

definition try_finally :: "('ev, 'e, 'a) action \<Rightarrow> ('ev, 'e, unit) action \<Rightarrow> ('ev, 'e, 'a) action" where
  "try_finally m fin =
     (case m of
        (t, r) \<Rightarrow>
          (case fin of
             (t', Inl e') \<Rightarrow> (t @ t', Inl e')
           | (t', Inr u) \<Rightarrow> (t @ t', r)))"


section \<open>The release facade: data\<close>

text \<open>
  Modelled from the spec: the option and context types are declared in modules of the
  repository that are imported by the facade (\<^verbatim>\<open>../options-mapping\<close>, \<^verbatim>\<open>../types\<close>) but are not
  among the sources. The configuration surface is the one the specification enumerates:
  \<^verbatim>\<open>cleanArtifacts: bool\<close>, \<^verbatim>\<open>uploadSourceMaps: bool\<close>, \<^verbatim>\<open>include\<close>, \<^verbatim>\<open>dist: string | undefined\<close>,
  \<^verbatim>\<open>setCommits: {...} | undefined\<close>, \<^verbatim>\<open>finalize: bool\<close>, \<^verbatim>\<open>deploy: {...} | undefined\<close>. The fields
  of the two option objects are only copied by the code, so their values stay opaque.
\<close>

datatype jsvalue = JSUndefined | JSBool bool | JSNumber int | JSString string

record setCommitsOptions =
  sc_auto :: jsvalue
  sc_repo :: jsvalue
  sc_commit :: jsvalue
  sc_previousCommit :: jsvalue
  sc_ignoreMissing :: jsvalue
  sc_ignoreEmpty :: jsvalue

record deployOptions =
  dp_env :: jsvalue
  dp_started :: jsvalue
  dp_finished :: jsvalue
  dp_time :: jsvalue
  dp_name :: jsvalue
  dp_url :: jsvalue

record uploadSourceMapsOptions =
  us_include :: "string list"
  us_dist :: "string option"

record NormalizedOptions =
  opt_cleanArtifacts :: bool
  opt_uploadSourceMaps :: bool
  opt_include :: "string list"
  opt_dist :: "string option"
  opt_setCommits :: "setCommitsOptions option"
  opt_finalize :: bool
  opt_deploy :: "deployOptions option"

text \<open>The calls the facade makes on \<^verbatim>\<open>ctx.cli.releases\<close>, with their arguments.\<close>

datatype cli_call =
    ReleasesNew string
  | ReleasesExecute "string list" bool
  | ReleasesUploadSourceMaps string uploadSourceMapsOptions
  | ReleasesSetCommits string setCommitsOptions
  | ReleasesFinalize string
  | ReleasesNewDeploy string deployOptions

record breadcrumb =
  level :: string
  message :: string

datatype span = Span nat

text \<open>
  What a step does to its collaborators. \<open>AddSpan op\<close> is the call
  \<^verbatim>\<open>addSpanToTransaction(ctx, op)\<close>; \<open>SpanFinish s\<close> is \<^verbatim>\<open>finish()\<close> on the span that call
  returned; \<open>CaptureException m\<close> is \<^verbatim>\<open>ctx.hub.captureException(new Error(m))\<close>.
\<close>

datatype event =
    AddSpan string
  | SpanFinish span
  | CliCall cli_call
  | CaptureException string
  | AddBreadcrumb breadcrumb
  | LoggerInfo string
  | LoggerDebug string

text \<open>
  The build context as the steps see it. \<open>cli_outcome\<close> is the external service: what the
  awaited promise of a call does (\<open>None\<close>: it resolves, \<open>Some e\<close>: it rejects with \<open>e\<close>).

  Modelled from the spec: the telemetry helper \<^verbatim>\<open>addSpanToTransaction\<close> lives in \<^verbatim>\<open>./telemetry\<close>,
  which is not among the sources. The specification describes it as wrapping an operation
  in a span attached to the transaction and as a safe no-op when telemetry is disabled;
  the steps call \<^verbatim>\<open>span?.finish()\<close>, so its result is a span or \<^verbatim>\<open>undefined\<close>. \<open>span_for\<close> is that
  result for a given operation name.
\<close>

record 'e BuildContext =
  cli_outcome :: "cli_call \<Rightarrow> 'e option"
  span_for :: "string \<Rightarrow> span option"

definition addSpanToTransaction :: "'e BuildContext \<Rightarrow> string \<Rightarrow> (event, 'e, span option) action" where
  "addSpanToTransaction ctx op = ([AddSpan op], Inr (span_for ctx op))"

text \<open>\<^verbatim>\<open>span?.finish()\<close>\<close>

definition span_finish :: "span option \<Rightarrow> (event, 'e, unit) action" where
  "span_finish span = (case span of None \<Rightarrow> ([], Inr ()) | Some s \<Rightarrow> emit (SpanFinish s))"

text \<open>\<^verbatim>\<open>await ctx.cli.releases.<call>\<close>\<close>

definition cli_await :: "'e BuildContext \<Rightarrow> cli_call \<Rightarrow> (event, 'e, unit) action" where
  "cli_await ctx c = ([CliCall c], (case cli_outcome ctx c of None \<Rightarrow> Inr () | Some e \<Rightarrow> Inl e))"

definition captureException :: "string \<Rightarrow> (event, 'e, unit) action" where
  "captureException m = emit (CaptureException m)"

definition addBreadcrumb :: "breadcrumb \<Rightarrow> (event, 'e, unit) action" where
  "addBreadcrumb b = emit (AddBreadcrumb b)"

definition logger_info :: "string \<Rightarrow> (event, 'e, unit) action" where
  "logger_info m = emit (LoggerInfo m)"

definition logger_debug :: "string \<Rightarrow> (event, 'e, unit) action" where
  "logger_debug m = emit (LoggerDebug m)"


section \<open>The release facade: the six steps\<close>

definition createNewRelease :: "NormalizedOptions \<Rightarrow> 'e BuildContext \<Rightarrow> string \<Rightarrow> (event, 'e, unit) action" where
  "createNewRelease options ctx releaseName =
     andThen (addSpanToTransaction ctx ''function.plugin.create_release'') (\<lambda>span.
     andThen (try_finally
                (try_catch (cli_await ctx (ReleasesNew releaseName))
                   (\<lambda>e. andThen (captureException ''CLI Error: Creating new release failed'') (\<lambda>_.
                        throw e)))
                (span_finish span)) (\<lambda>_.
     andThen (addBreadcrumb \<lparr>level = ''info'', message = ''Successfully created release.''\<rparr>) (\<lambda>_.
     logger_info ''Successfully created release.'')))"

definition cleanArtifacts :: "NormalizedOptions \<Rightarrow> 'e BuildContext \<Rightarrow> string \<Rightarrow> (event, 'e, unit) action" where
  "cleanArtifacts options ctx releaseName =
     (if \<not> opt_cleanArtifacts options then
        logger_debug ''Skipping artifact cleanup.''
      else
        andThen (addSpanToTransaction ctx ''function.plugin.clean_artifacts'') (\<lambda>span.
        andThen (try_finally
                   (try_catch
                      (cli_await ctx
                         (ReleasesExecute [''releases'', ''files'', releaseName, ''delete'', ''--all''] True))
                      (\<lambda>e. andThen (captureException ''CLI Error: Deleting release files failed'') (\<lambda>_.
                           throw e)))
                   (span_finish span)) (\<lambda>_.
        andThen (addBreadcrumb \<lparr>level = ''info'', message = ''Successfully cleaned previous artifacts.''\<rparr>) (\<lambda>_.
        logger_info ''Successfully cleaned previous artifacts.''))))"

definition uploadSourceMaps :: "NormalizedOptions \<Rightarrow> 'e BuildContext \<Rightarrow> string \<Rightarrow> (event, 'e, unit) action" where
  "uploadSourceMaps options ctx releaseName =
     (if \<not> opt_uploadSourceMaps options then
        logger_debug ''Skipping source maps upload.''
      else
        andThen (addSpanToTransaction ctx ''function.plugin.upload_sourcemaps'') (\<lambda>span.
        andThen (logger_info ''Uploading Sourcemaps.'') (\<lambda>_.
        andThen (try_finally
                   (try_catch
                      (cli_await ctx
                         (ReleasesUploadSourceMaps releaseName
                            \<lparr>us_include = opt_include options, us_dist = opt_dist options\<rparr>))
                      (\<lambda>e. andThen (captureException ''CLI Error: Uploading source maps failed'') (\<lambda>_.
                           throw e)))
                   (span_finish span)) (\<lambda>_.
        andThen (addBreadcrumb \<lparr>level = ''info'', message = ''Successfully uploaded source maps.''\<rparr>) (\<lambda>_.
        logger_info ''Successfully uploaded source maps.'')))))"

definition setCommits :: "NormalizedOptions \<Rightarrow> 'e BuildContext \<Rightarrow> string \<Rightarrow> (event, 'e, unit) action" where
  "setCommits options ctx releaseName =
     (case opt_setCommits options of
        None \<Rightarrow> logger_debug ''Skipping setting commits to release.''
      | Some sc \<Rightarrow>
          andThen (addSpanToTransaction ctx ''function.plugin.set_commits'') (\<lambda>span.
          andThen (try_finally
                     (try_catch
                        (cli_await ctx
                           (ReleasesSetCommits releaseName
                              \<lparr>sc_auto = sc_auto sc, sc_repo = sc_repo sc, sc_commit = sc_commit sc,
                               sc_previousCommit = sc_previousCommit sc,
                               sc_ignoreMissing = sc_ignoreMissing sc,
                               sc_ignoreEmpty = sc_ignoreEmpty sc\<rparr>))
                        (\<lambda>e. andThen (captureException ''CLI Error: Setting commits failed'') (\<lambda>_.
                             throw e)))
                     (span_finish span)) (\<lambda>_.
          logger_info ''Successfully set commits.'')))"

definition finalizeRelease :: "NormalizedOptions \<Rightarrow> 'e BuildContext \<Rightarrow> string \<Rightarrow> (event, 'e, unit) action" where
  "finalizeRelease options ctx releaseName =
     (if \<not> opt_finalize options then
        andThen (addBreadcrumb \<lparr>level = ''info'', message = ''Skipping release finalization.''\<rparr>) (\<lambda>_.
        logger_debug ''Skipping release finalization.'')
      else
        andThen (addSpanToTransaction ctx ''function.plugin.finalize_release'') (\<lambda>span.
        andThen (try_finally
                   (try_catch (cli_await ctx (ReleasesFinalize releaseName))
                      (\<lambda>e. andThen (captureException ''CLI Error: Finalizing release failed'') (\<lambda>_.
                           throw e)))
                   (span_finish span)) (\<lambda>_.
        andThen (addBreadcrumb \<lparr>level = ''info'', message = ''Successfully finalized release.''\<rparr>) (\<lambda>_.
        logger_info ''Successfully finalized release.''))))"

definition addDeploy :: "NormalizedOptions \<Rightarrow> 'e BuildContext \<Rightarrow> string \<Rightarrow> (event, 'e, unit) action" where
  "addDeploy options ctx releaseName =
     (case opt_deploy options of
        None \<Rightarrow>
          andThen (addBreadcrumb \<lparr>level = ''info'', message = ''Skipping adding deploy info to release.''\<rparr>) (\<lambda>_.
          logger_debug ''Skipping adding deploy info to release.'')
      | Some d \<Rightarrow>
          andThen (addSpanToTransaction ctx ''function.plugin.deploy'') (\<lambda>span.
          andThen (try_finally
                     (try_catch
                        (cli_await ctx
                           (ReleasesNewDeploy releaseName
                              \<lparr>dp_env = dp_env d, dp_started = dp_started d, dp_finished = dp_finished d,
                               dp_time = dp_time d, dp_name = dp_name d, dp_url = dp_url d\<rparr>))
                        (\<lambda>e. andThen (captureException ''CLI Error: Adding deploy info failed'') (\<lambda>_.
                             throw e)))
                     (span_finish span)) (\<lambda>_.
          andThen (addBreadcrumb \<lparr>level = ''info'', message = ''Successfully added deploy.''\<rparr>) (\<lambda>_.
          logger_info ''Successfully added deploy.''))))"

text \<open>The six steps under one name, so that a statement can range over all of them.\<close>

datatype step = CreateRelease | CleanArtifacts | UploadSourceMaps | SetCommits | FinalizeRelease | AddDeploy

definition run_step :: "step \<Rightarrow> NormalizedOptions \<Rightarrow> 'e BuildContext \<Rightarrow> string \<Rightarrow> (event, 'e, unit) action" where
  "run_step s options ctx releaseName =
     (case s of
        CreateRelease \<Rightarrow> createNewRelease options ctx releaseName
      | CleanArtifacts \<Rightarrow> cleanArtifacts options ctx releaseName
      | UploadSourceMaps \<Rightarrow> uploadSourceMaps options ctx releaseName
      | SetCommits \<Rightarrow> setCommits options ctx releaseName
      | FinalizeRelease \<Rightarrow> finalizeRelease options ctx releaseName
      | AddDeploy \<Rightarrow> addDeploy options ctx releaseName)"

text \<open>The condition under which a step returns before its external call.\<close>

definition skipped :: "step \<Rightarrow> NormalizedOptions \<Rightarrow> bool" where
  "skipped s options =
     (case s of
        CreateRelease \<Rightarrow> False
      | CleanArtifacts \<Rightarrow> \<not> opt_cleanArtifacts options
      | UploadSourceMaps \<Rightarrow> \<not> opt_uploadSourceMaps options
      | SetCommits \<Rightarrow> opt_setCommits options = None
      | FinalizeRelease \<Rightarrow> \<not> opt_finalize options
      | AddDeploy \<Rightarrow> opt_deploy options = None)"

text \<open>Views of a log: one list per collaborator, in the order of the calls.\<close>

fun cli_calls :: "event list \<Rightarrow> cli_call list" where
  "cli_calls [] = []"
| "cli_calls (CliCall c # t) = c # cli_calls t"
| "cli_calls (_ # t) = cli_calls t"

fun captured :: "event list \<Rightarrow> string list" where
  "captured [] = []"
| "captured (CaptureException m # t) = m # captured t"
| "captured (_ # t) = captured t"

fun breadcrumbs :: "event list \<Rightarrow> breadcrumb list" where
  "breadcrumbs [] = []"
| "breadcrumbs (AddBreadcrumb b # t) = b # breadcrumbs t"
| "breadcrumbs (_ # t) = breadcrumbs t"

fun info_logs :: "event list \<Rightarrow> string list" where
  "info_logs [] = []"
| "info_logs (LoggerInfo m # t) = m # info_logs t"
| "info_logs (_ # t) = info_logs t"

fun debug_logs :: "event list \<Rightarrow> string list" where
  "debug_logs [] = []"
| "debug_logs (LoggerDebug m # t) = m # debug_logs t"
| "debug_logs (_ # t) = debug_logs t"

text \<open>The telemetry and external-call events of a log, dropping hub and logger events.\<close>

fun span_view :: "event list \<Rightarrow> event list" where
  "span_view [] = []"
| "span_view (AddSpan op # t) = AddSpan op # span_view t"
| "span_view (SpanFinish s # t) = SpanFinish s # span_view t"
| "span_view (CliCall c # t) = CliCall c # span_view t"
| "span_view (_ # t) = span_view t"


text \<open>What \<^verbatim>\<open>span?.finish()\<close> adds to the log for a given result of the telemetry helper.\<close>

definition finish_events :: "span option \<Rightarrow> event list" where
  "finish_events span = (case span of None \<Rightarrow> [] | Some s \<Rightarrow> [SpanFinish s])"


section \<open>The esbuild plugins: data\<close>

text \<open>
  The part of the esbuild plugin interface that the three plugins use. The kind of a
  resolution is one of esbuild's string literals; \<open>EntryPoint\<close> is \<^verbatim>\<open>"entry-point"\<close>.
\<close>

datatype ImportKind =
    EntryPoint | ImportStatement | RequireCall | DynamicImport | RequireResolve
  | ImportRule | ComposesFrom | UrlToken

record PluginData =
  originalPath :: string
  originalResolveDir :: string

record OnResolveArgs =
  ra_path :: string
  ra_importer :: string
  ra_namespace :: string
  ra_resolveDir :: string
  ra_kind :: ImportKind
  ra_pluginData :: "PluginData option"

text \<open>A field the callback does not set is \<open>None\<close> (absent from the returned object).\<close>

record OnResolveResult =
  rr_pluginName :: string
  rr_path :: string
  rr_namespace :: "string option"
  rr_suffix :: "string option"
  rr_sideEffects :: "bool option"
  rr_pluginData :: "PluginData option"

record OnLoadArgs =
  la_path :: string
  la_namespace :: string
  la_suffix :: string
  la_pluginData :: "PluginData option"

record OnLoadResult =
  lr_loader :: string
  lr_pluginName :: string
  lr_contents :: string
  lr_resolveDir :: "string option"

datatype js_error = TypeError

text \<open>
  \<^verbatim>\<open>uuidv4()\<close> reads the process's random source. The source is made explicit: a generator
  is the sequence of values the calls will return, \<open>rng_output\<close>, and the number of calls made
  so far, \<open>rng_drawn\<close>. A call returns the next value and advances the count. That the
  generator never repeats a value is the hypothesis \<open>inj (rng_output g)\<close> of the statements
  that need it.
\<close>

record rng =
  rng_output :: "nat \<Rightarrow> string"
  rng_drawn :: nat

definition uuidv4 :: "rng \<Rightarrow> string \<times> rng" where
  "uuidv4 g = (rng_output g (rng_drawn g), g\<lparr>rng_drawn := Suc (rng_drawn g)\<rparr>)"

text \<open>
  A filter of a hook registration: the regular expressions in the source are \<^verbatim>\<open>/.*/\<close>, which
  every path matches, and a literal, which the paths containing it match.
\<close>

datatype path_filter = MatchAll | Contains string

record hook_filter =
  hf_filter :: path_filter
  hf_namespace :: "string option"

type_synonym resolve_callback = "OnResolveArgs \<Rightarrow> rng \<Rightarrow> OnResolveResult option \<times> rng"
type_synonym load_callback = "OnLoadArgs \<Rightarrow> rng \<Rightarrow> (js_error + OnLoadResult) \<times> rng"

text \<open>
  The manifest of a finished build. \<open>mf_outputs\<close> is the \<^verbatim>\<open>outputs\<close> object, as the list of its
  own properties in the order \<^verbatim>\<open>Object.keys\<close> enumerates them.
\<close>

record 'o Metafile =
  mf_outputs :: "(string \<times> 'o) list"

record 'o BuildResult =
  br_metafile :: "'o Metafile option"

definition object_keys :: "(string \<times> 'o) list \<Rightarrow> string list" where
  "object_keys obj = map fst obj"

datatype upload_event = Upload "string list"

type_synonym ('e, 'o) end_callback = "'o BuildResult \<Rightarrow> (upload_event, 'e, unit) action"

record BuildOptions =
  bo_inject :: "string list option"
  bo_metafile :: "bool option"

text \<open>
  The \<^verbatim>\<open>build\<close> object handed to \<^verbatim>\<open>setup\<close>: the initial options, which \<^verbatim>\<open>setup\<close> may change, and
  the callbacks registered so far through \<^verbatim>\<open>onResolve\<close>, \<^verbatim>\<open>onLoad\<close> and \<^verbatim>\<open>onEnd\<close>.
\<close>

record ('e, 'o) PluginBuild =
  initialOptions :: BuildOptions
  onResolve :: "(hook_filter \<times> resolve_callback) list"
  onLoad :: "(hook_filter \<times> load_callback) list"
  onEnd :: "('e, 'o) end_callback list"


section \<open>The release injection plugin\<close>

definition releaseInjection_pluginName :: string where
  "releaseInjection_pluginName = ''sentry-esbuild-release-injection-plugin''"

definition releaseInjection_onResolve :: resolve_callback where
  "releaseInjection_onResolve args g =
     (Some \<lparr>rr_pluginName = releaseInjection_pluginName, rr_path = ra_path args,
            rr_namespace = None, rr_suffix = None, rr_sideEffects = Some True,
            rr_pluginData = None\<rparr>, g)"

definition releaseInjection_onLoad :: "string \<Rightarrow> load_callback" where
  "releaseInjection_onLoad injectionCode args g =
     (Inr \<lparr>lr_loader = ''js'', lr_pluginName = releaseInjection_pluginName,
           lr_contents = injectionCode, lr_resolveDir = None\<rparr>, g)"

text \<open>
  \<open>path_resolve\<close> is Node's \<^verbatim>\<open>path.resolve\<close> in the working directory of the process, a
  parameter of the model.
\<close>

definition esbuildReleaseInjectionPlugin_setup ::
  "(string \<Rightarrow> string) \<Rightarrow> string \<Rightarrow> ('e, 'o) PluginBuild \<Rightarrow> ('e, 'o) PluginBuild" where
  "esbuildReleaseInjectionPlugin_setup path_resolve injectionCode build =
     (let virtualReleaseInjectionFilePath = path_resolve ''_sentry-release-injection-stub'';
          inject = (case bo_inject (initialOptions build) of None \<Rightarrow> [] | Some xs \<Rightarrow> xs)
      in build
           \<lparr>initialOptions :=
              (initialOptions build)\<lparr>bo_inject := Some (inject @ [virtualReleaseInjectionFilePath])\<rparr>,
            onResolve := onResolve build @
              [(\<lparr>hf_filter = Contains ''_sentry-release-injection-stub'', hf_namespace = None\<rparr>,
                releaseInjection_onResolve)],
            onLoad := onLoad build @
              [(\<lparr>hf_filter = Contains ''_sentry-release-injection-stub'', hf_namespace = None\<rparr>,
                releaseInjection_onLoad injectionCode)]\<rparr>)"


section \<open>The debug-id injection plugin\<close>

definition debugIdInjection_pluginName :: string where
  "debugIdInjection_pluginName = ''sentry-esbuild-debug-id-injection-plugin''"


definition stubNamespace :: string where
  "stubNamespace = ''sentry-debug-id-stub''"



text \<open>The second \<^verbatim>\<open>onResolve\<close> callback: the stub path, tagged with a new uuid.\<close>

definition debugIdInjection_onResolve_stub :: resolve_callback where
  "debugIdInjection_onResolve_stub args g =
     (case uuidv4 g of
        (u, g') \<Rightarrow>
          (Some \<lparr>rr_pluginName = debugIdInjection_pluginName, rr_path = ra_path args,
                 rr_namespace = Some stubNamespace,
                 rr_suffix = Some (''?sentry-module-id='' @ u),
                 rr_sideEffects = Some True, rr_pluginData = None\<rparr>, g'))"

text \<open>
  The \<^verbatim>\<open>onLoad\<close> callback of the stub namespace. \<^verbatim>\<open>getDebugIdSnippet\<close> is imported from the
  core package and is not among the sources; it is a parameter of the model.
\<close>

definition debugIdInjection_onLoad_stub :: "(string \<Rightarrow> string) \<Rightarrow> load_callback" where
  "debugIdInjection_onLoad_stub getDebugIdSnippet args g =
     (case uuidv4 g of
        (u, g') \<Rightarrow>
          (Inr \<lparr>lr_loader = ''js'', lr_pluginName = debugIdInjection_pluginName,
                lr_contents = getDebugIdSnippet u, lr_resolveDir = None\<rparr>, g'))"


text \<open>
  A sequence of stub resolutions and stub loads, in the order the host makes them, each
  served from the generator the previous one left.
\<close>

datatype stub_request = ResolveStub OnResolveArgs | LoadStub OnLoadArgs

datatype stub_reply = Resolved "OnResolveResult option" | Loaded "js_error + OnLoadResult"

fun serve_stub :: "(string \<Rightarrow> string) \<Rightarrow> stub_request list \<Rightarrow> rng \<Rightarrow> stub_reply list \<times> rng" where
  "serve_stub getDebugIdSnippet [] g = ([], g)"
| "serve_stub getDebugIdSnippet (ResolveStub args # reqs) g =
     (case debugIdInjection_onResolve_stub args g of
        (r, g') \<Rightarrow>
          (case serve_stub getDebugIdSnippet reqs g' of (rs, g'') \<Rightarrow> (Resolved r # rs, g'')))"
| "serve_stub getDebugIdSnippet (LoadStub args # reqs) g =
     (case debugIdInjection_onLoad_stub getDebugIdSnippet args g of
        (r, g') \<Rightarrow>
          (case serve_stub getDebugIdSnippet reqs g' of (rs, g'') \<Rightarrow> (Loaded r # rs, g'')))"

fun resolved_suffixes :: "stub_reply list \<Rightarrow> string list" where
  "resolved_suffixes [] = []"
| "resolved_suffixes (Resolved (Some r) # rs) =
     (case rr_suffix r of None \<Rightarrow> resolved_suffixes rs | Some s \<Rightarrow> s # resolved_suffixes rs)"
| "resolved_suffixes (_ # rs) = resolved_suffixes rs"

fun loaded_contents :: "stub_reply list \<Rightarrow> string list" where
  "loaded_contents [] = []"
| "loaded_contents (Loaded (Inr r) # rs) = lr_contents r # loaded_contents rs"
| "loaded_contents (_ # rs) = loaded_contents rs"


section \<open>The debug-id upload plugin\<close>

text \<open>
  \<open>upload\<close> is the caller's callback: what its promise does for a list of artifacts
  (\<open>None\<close>: it resolves, \<open>Some e\<close>: it rejects with \<open>e\<close>). The log records each call.
\<close>

definition await_upload :: "(string list \<Rightarrow> 'e option) \<Rightarrow> string list \<Rightarrow> (upload_event, 'e, unit) action" where
  "await_upload upload buildArtifacts =
     ([Upload buildArtifacts], (case upload buildArtifacts of None \<Rightarrow> Inr () | Some e \<Rightarrow> Inl e))"

definition debugIdUpload_onEnd :: "(string list \<Rightarrow> 'e option) \<Rightarrow> ('e, 'o) end_callback" where
  "debugIdUpload_onEnd upload result =
     (let buildArtifacts =
            (case br_metafile result of
               Some metafile \<Rightarrow> object_keys (mf_outputs metafile)
             | None \<Rightarrow> [])
      in await_upload upload buildArtifacts)"

definition esbuildDebugIdUploadPlugin_setup ::
  "(string list \<Rightarrow> 'e option) \<Rightarrow> ('e, 'o) PluginBuild \<Rightarrow> ('e, 'o) PluginBuild" where
  "esbuildDebugIdUploadPlugin_setup upload build =
     build
       \<lparr>initialOptions := (initialOptions build)\<lparr>bo_metafile := Some True\<rparr>,
        onEnd := onEnd build @ [debugIdUpload_onEnd upload]\<rparr>"


section \<open>Example inputs\<close>

text \<open>Concrete options and contexts, used where a statement is instantiated.\<close>

definition all_steps_options :: NormalizedOptions where
  "all_steps_options =
     \<lparr>opt_cleanArtifacts = True, opt_uploadSourceMaps = True, opt_include = [''./dist''],
      opt_dist = None,
      opt_setCommits =
        Some \<lparr>sc_auto = JSBool True, sc_repo = JSUndefined, sc_commit = JSUndefined,
              sc_previousCommit = JSUndefined, sc_ignoreMissing = JSUndefined,
              sc_ignoreEmpty = JSUndefined\<rparr>,
      opt_finalize = True,
      opt_deploy =
        Some \<lparr>dp_env = JSString ''production'', dp_started = JSUndefined,
              dp_finished = JSUndefined, dp_time = JSUndefined, dp_name = JSUndefined,
              dp_url = JSUndefined\<rparr>\<rparr>"

definition no_steps_options :: NormalizedOptions where
  "no_steps_options =
     \<lparr>opt_cleanArtifacts = False, opt_uploadSourceMaps = False, opt_include = [],
      opt_dist = None, opt_setCommits = None, opt_finalize = False, opt_deploy = None\<rparr>"

definition failing_ctx :: "string BuildContext" where
  "failing_ctx = \<lparr>cli_outcome = (\<lambda>c. Some ''ECONNREFUSED''), span_for = (\<lambda>op. Some (Span 0))\<rparr>"

definition healthy_ctx :: "string BuildContext" where
  "healthy_ctx = \<lparr>cli_outcome = (\<lambda>c. None), span_for = (\<lambda>op. Some (Span 0))\<rparr>"

definition untraced_ctx :: "string BuildContext" where
  "untraced_ctx = \<lparr>cli_outcome = (\<lambda>c. None), span_for = (\<lambda>op. None)\<rparr>"


definition counting_rng :: rng where
  "counting_rng = \<lparr>rng_output = (\<lambda>n. ''id-'' @ replicate n (CHR ''x'')), rng_drawn = 0\<rparr>"

definition example_snippet :: "string \<Rightarrow> string" where
  "example_snippet debugId = ''_sentryDebugIds='' @ debugId"

definition stub_import :: OnResolveArgs where
  "stub_import =
     \<lparr>ra_path = ''_sentry-debug-id-injection-stub'', ra_importer = ''src/index.js'',
      ra_namespace = ''sentry-debug-id-proxy'', ra_resolveDir = ''/app'',
      ra_kind = ImportStatement, ra_pluginData = None\<rparr>"


definition stub_load :: OnLoadArgs where
  "stub_load =
     \<lparr>la_path = ''_sentry-debug-id-injection-stub'', la_namespace = ''sentry-debug-id-stub'',
      la_suffix = ''?sentry-module-id=id-'', la_pluginData = None\<rparr>"



definition two_outputs :: "nat BuildResult" where
  "two_outputs = \<lparr>br_metafile = Some \<lparr>mf_outputs = [(''a.js'', 120), (''b.js'', 64)]\<rparr>\<rparr>"

definition no_metafile :: "nat BuildResult" where
  "no_metafile = \<lparr>br_metafile = None\<rparr>"

definition failing_upload :: "string list \<Rightarrow> string option" where
  "failing_upload buildArtifacts = Some ''upload failed''"

definition initial_build :: "(string, nat) PluginBuild" where
  "initial_build =
     \<lparr>initialOptions = \<lparr>bo_inject = Some [''./polyfill.js''], bo_metafile = Some False\<rparr>,
      onResolve = [], onLoad = [], onEnd = []\<rparr>"


section \<open>Properties of the steps\<close>

lemmas action_defs =
  throw_def emit_def andThen_def try_catch_def try_finally_def addSpanToTransaction_def
  span_finish_def cli_await_def captureException_def addBreadcrumb_def logger_info_def
  logger_debug_def

lemma setCommitsOptions_rebuild:
  "\<lparr>sc_auto = sc_auto sc, sc_repo = sc_repo sc, sc_commit = sc_commit sc,
    sc_previousCommit = sc_previousCommit sc, sc_ignoreMissing = sc_ignoreMissing sc,
    sc_ignoreEmpty = sc_ignoreEmpty sc\<rparr> = (sc :: setCommitsOptions)"
  by (cases sc) simp

lemma deployOptions_rebuild:
  "\<lparr>dp_env = dp_env d, dp_started = dp_started d, dp_finished = dp_finished d,
    dp_time = dp_time d, dp_name = dp_name d, dp_url = dp_url d\<rparr> = (d :: deployOptions)"
  by (cases d) simp

lemma createNewRelease_log:
  "createNewRelease options ctx n =
     (case cli_outcome ctx (ReleasesNew n) of
        None \<Rightarrow>
          (AddSpan ''function.plugin.create_release'' # CliCall (ReleasesNew n) #
           finish_events (span_for ctx ''function.plugin.create_release'') @
           [AddBreadcrumb \<lparr>level = ''info'', message = ''Successfully created release.''\<rparr>,
            LoggerInfo ''Successfully created release.''], Inr ())
      | Some e \<Rightarrow>
          (AddSpan ''function.plugin.create_release'' # CliCall (ReleasesNew n) #
           CaptureException ''CLI Error: Creating new release failed'' #
           finish_events (span_for ctx ''function.plugin.create_release''), Inl e))"
  by (simp add: createNewRelease_def action_defs finish_events_def split: option.splits)

lemma cleanArtifacts_log:
  "cleanArtifacts options ctx n =
     (if \<not> opt_cleanArtifacts options then ([LoggerDebug ''Skipping artifact cleanup.''], Inr ())
      else
        (case cli_outcome ctx (ReleasesExecute [''releases'', ''files'', n, ''delete'', ''--all''] True) of
           None \<Rightarrow>
             (AddSpan ''function.plugin.clean_artifacts'' #
              CliCall (ReleasesExecute [''releases'', ''files'', n, ''delete'', ''--all''] True) #
              finish_events (span_for ctx ''function.plugin.clean_artifacts'') @
              [AddBreadcrumb \<lparr>level = ''info'', message = ''Successfully cleaned previous artifacts.''\<rparr>,
               LoggerInfo ''Successfully cleaned previous artifacts.''], Inr ())
         | Some e \<Rightarrow>
             (AddSpan ''function.plugin.clean_artifacts'' #
              CliCall (ReleasesExecute [''releases'', ''files'', n, ''delete'', ''--all''] True) #
              CaptureException ''CLI Error: Deleting release files failed'' #
              finish_events (span_for ctx ''function.plugin.clean_artifacts''), Inl e)))"
  by (simp add: cleanArtifacts_def action_defs finish_events_def split: option.splits)

lemma uploadSourceMaps_log:
  "uploadSourceMaps options ctx n =
     (if \<not> opt_uploadSourceMaps options then ([LoggerDebug ''Skipping source maps upload.''], Inr ())
      else
        (case cli_outcome ctx
                (ReleasesUploadSourceMaps n \<lparr>us_include = opt_include options, us_dist = opt_dist options\<rparr>) of
           None \<Rightarrow>
             (AddSpan ''function.plugin.upload_sourcemaps'' # LoggerInfo ''Uploading Sourcemaps.'' #
              CliCall (ReleasesUploadSourceMaps n
                         \<lparr>us_include = opt_include options, us_dist = opt_dist options\<rparr>) #
              finish_events (span_for ctx ''function.plugin.upload_sourcemaps'') @
              [AddBreadcrumb \<lparr>level = ''info'', message = ''Successfully uploaded source maps.''\<rparr>,
               LoggerInfo ''Successfully uploaded source maps.''], Inr ())
         | Some e \<Rightarrow>
             (AddSpan ''function.plugin.upload_sourcemaps'' # LoggerInfo ''Uploading Sourcemaps.'' #
              CliCall (ReleasesUploadSourceMaps n
                         \<lparr>us_include = opt_include options, us_dist = opt_dist options\<rparr>) #
              CaptureException ''CLI Error: Uploading source maps failed'' #
              finish_events (span_for ctx ''function.plugin.upload_sourcemaps''), Inl e)))"
  by (simp add: uploadSourceMaps_def action_defs finish_events_def split: option.splits)

lemma setCommits_log:
  "setCommits options ctx n =
     (case opt_setCommits options of
        None \<Rightarrow> ([LoggerDebug ''Skipping setting commits to release.''], Inr ())
      | Some sc \<Rightarrow>
        (case cli_outcome ctx (ReleasesSetCommits n sc) of
           None \<Rightarrow>
             (AddSpan ''function.plugin.set_commits'' # CliCall (ReleasesSetCommits n sc) #
              finish_events (span_for ctx ''function.plugin.set_commits'') @
              [LoggerInfo ''Successfully set commits.''], Inr ())
         | Some e \<Rightarrow>
             (AddSpan ''function.plugin.set_commits'' # CliCall (ReleasesSetCommits n sc) #
              CaptureException ''CLI Error: Setting commits failed'' #
              finish_events (span_for ctx ''function.plugin.set_commits''), Inl e)))"
  by (simp add: setCommits_def setCommitsOptions_rebuild action_defs finish_events_def split: option.splits)

lemma finalizeRelease_log:
  "finalizeRelease options ctx n =
     (if \<not> opt_finalize options then
        ([AddBreadcrumb \<lparr>level = ''info'', message = ''Skipping release finalization.''\<rparr>,
          LoggerDebug ''Skipping release finalization.''], Inr ())
      else
        (case cli_outcome ctx (ReleasesFinalize n) of
           None \<Rightarrow>
             (AddSpan ''function.plugin.finalize_release'' # CliCall (ReleasesFinalize n) #
              finish_events (span_for ctx ''function.plugin.finalize_release'') @
              [AddBreadcrumb \<lparr>level = ''info'', message = ''Successfully finalized release.''\<rparr>,
               LoggerInfo ''Successfully finalized release.''], Inr ())
         | Some e \<Rightarrow>
             (AddSpan ''function.plugin.finalize_release'' # CliCall (ReleasesFinalize n) #
              CaptureException ''CLI Error: Finalizing release failed'' #
              finish_events (span_for ctx ''function.plugin.finalize_release''), Inl e)))"
  by (simp add: finalizeRelease_def action_defs finish_events_def split: option.splits)

lemma addDeploy_log:
  "addDeploy options ctx n =
     (case opt_deploy options of
        None \<Rightarrow>
          ([AddBreadcrumb \<lparr>level = ''info'', message = ''Skipping adding deploy info to release.''\<rparr>,
            LoggerDebug ''Skipping adding deploy info to release.''], Inr ())
      | Some d \<Rightarrow>
        (case cli_outcome ctx (ReleasesNewDeploy n d) of
           None \<Rightarrow>
             (AddSpan ''function.plugin.deploy'' # CliCall (ReleasesNewDeploy n d) #
              finish_events (span_for ctx ''function.plugin.deploy'') @
              [AddBreadcrumb \<lparr>level = ''info'', message = ''Successfully added deploy.''\<rparr>,
               LoggerInfo ''Successfully added deploy.''], Inr ())
         | Some e \<Rightarrow>
             (AddSpan ''function.plugin.deploy'' # CliCall (ReleasesNewDeploy n d) #
              CaptureException ''CLI Error: Adding deploy info failed'' #
              finish_events (span_for ctx ''function.plugin.deploy''), Inl e)))"
  by (simp add: addDeploy_def deployOptions_rebuild action_defs finish_events_def split: option.splits)

lemmas step_logs =
  createNewRelease_log cleanArtifacts_log uploadSourceMaps_log setCommits_log
  finalizeRelease_log addDeploy_log

lemma view_finish [simp]:
  "cli_calls (finish_events sp @ t) = cli_calls t"
  "captured (finish_events sp @ t) = captured t"
  "breadcrumbs (finish_events sp @ t) = breadcrumbs t"
  "info_logs (finish_events sp @ t) = info_logs t"
  "debug_logs (finish_events sp @ t) = debug_logs t"
  "span_view (finish_events sp @ t) = finish_events sp @ span_view t"
  by (cases sp; simp add: finish_events_def)+

lemma view_finish_end [simp]:
  "cli_calls (finish_events sp) = []"
  "captured (finish_events sp) = []"
  "breadcrumbs (finish_events sp) = []"
  "info_logs (finish_events sp) = []"
  "debug_logs (finish_events sp) = []"
  "span_view (finish_events sp) = finish_events sp"
  "CliCall c \<notin> set (finish_events sp)"
  by (cases sp; simp add: finish_events_def)+


text \<open>
  Claim C3. In each of the six steps, when the call to the external service throws, the
  step captures one new exception whose message is \<^verbatim>\<open>CLI Error: <description> failed\<close> with
  the description of that step, and then throws the error the service threw, unchanged.
  On that path no breadcrumb is added and no success line is logged: the only info line
  is the announcement the upload step prints before its call.
\<close>

theorem failure_is_captured_and_rethrown:
  assumes "CliCall c \<in> set (fst (run_step s options ctx releaseName))"
      and "cli_outcome ctx c = Some e"
  shows "snd (run_step s options ctx releaseName) = Inl e
       \<and> captured (fst (run_step s options ctx releaseName)) =
           [''CLI Error: '' @
             (case s of
                CreateRelease \<Rightarrow> ''Creating new release''
              | CleanArtifacts \<Rightarrow> ''Deleting release files''
              | UploadSourceMaps \<Rightarrow> ''Uploading source maps''
              | SetCommits \<Rightarrow> ''Setting commits''
              | FinalizeRelease \<Rightarrow> ''Finalizing release''
              | AddDeploy \<Rightarrow> ''Adding deploy info'') @ '' failed'']
       \<and> breadcrumbs (fst (run_step s options ctx releaseName)) = []
       \<and> info_logs (fst (run_step s options ctx releaseName)) =
           (if s = UploadSourceMaps then [''Uploading Sourcemaps.''] else [])"
  using assms
  by (cases s) (auto simp: run_step_def step_logs split: if_splits option.splits)

theorem failure_is_captured_and_rethrown_witness:
  "CliCall (ReleasesNew ''1.0.0'') \<in> set (fst (run_step CreateRelease all_steps_options failing_ctx ''1.0.0''))
   \<and> cli_outcome failing_ctx (ReleasesNew ''1.0.0'') = Some ''ECONNREFUSED''
   \<and> snd (run_step CreateRelease all_steps_options failing_ctx ''1.0.0'') = Inl ''ECONNREFUSED''
   \<and> captured (fst (run_step CreateRelease all_steps_options failing_ctx ''1.0.0'')) =
         [''CLI Error: Creating new release failed'']
   \<and> breadcrumbs (fst (run_step CreateRelease all_steps_options failing_ctx ''1.0.0'')) = []
   \<and> info_logs (fst (run_step CreateRelease all_steps_options failing_ctx ''1.0.0'')) = []"
proof -
  have called: "CliCall (ReleasesNew ''1.0.0'')
      \<in> set (fst (run_step CreateRelease all_steps_options failing_ctx ''1.0.0''))"
    by (simp add: run_step_def createNewRelease_log failing_ctx_def)
  have thrown: "cli_outcome failing_ctx (ReleasesNew ''1.0.0'') = Some ''ECONNREFUSED''"
    by (simp add: failing_ctx_def)
  from failure_is_captured_and_rethrown [OF called thrown] called thrown
  show ?thesis by simp
qed

text \<open>
  Claim C4. A step whose flag is false or whose option object is absent makes no call to
  the external service, captures no exception and returns normally.
\<close>

theorem skipped_step_is_silent:
  assumes "skipped s options"
  shows "cli_calls (fst (run_step s options ctx releaseName)) = []
       \<and> captured (fst (run_step s options ctx releaseName)) = []
       \<and> snd (run_step s options ctx releaseName) = Inr ()"
  using assms
  by (cases s) (auto simp: run_step_def skipped_def step_logs split: if_splits option.splits)

theorem skipped_step_is_silent_witness:
  "skipped SetCommits no_steps_options
   \<and> cli_calls (fst (run_step SetCommits no_steps_options failing_ctx ''1.0.0'')) = []
   \<and> captured (fst (run_step SetCommits no_steps_options failing_ctx ''1.0.0'')) = []
   \<and> snd (run_step SetCommits no_steps_options failing_ctx ''1.0.0'') = Inr ()"
proof -
  have off: "skipped SetCommits no_steps_options"
    by (simp add: skipped_def no_steps_options_def)
  from skipped_step_is_silent [OF off, of failing_ctx "''1.0.0''"] off
  show ?thesis by simp
qed

text \<open>
  Claim C6. A step that is not skipped calls the telemetry helper with the operation name
  of that step before it calls the external service, and the span the helper returned is
  finished after the call, whether the call resolved or threw (when telemetry is off the
  helper returns no span and there is nothing to finish). A skipped step neither calls
  the helper nor finishes a span.
\<close>

theorem span_wraps_external_call:
  "(skipped s options \<longrightarrow> span_view (fst (run_step s options ctx releaseName)) = [])
   \<and> (\<not> skipped s options \<longrightarrow>
        (\<exists>c. span_view (fst (run_step s options ctx releaseName)) =
                [AddSpan (''function.plugin.'' @
                   (case s of
                      CreateRelease \<Rightarrow> ''create_release''
                    | CleanArtifacts \<Rightarrow> ''clean_artifacts''
                    | UploadSourceMaps \<Rightarrow> ''upload_sourcemaps''
                    | SetCommits \<Rightarrow> ''set_commits''
                    | FinalizeRelease \<Rightarrow> ''finalize_release''
                    | AddDeploy \<Rightarrow> ''deploy'')),
                 CliCall c] @
                (case span_for ctx (''function.plugin.'' @
                   (case s of
                      CreateRelease \<Rightarrow> ''create_release''
                    | CleanArtifacts \<Rightarrow> ''clean_artifacts''
                    | UploadSourceMaps \<Rightarrow> ''upload_sourcemaps''
                    | SetCommits \<Rightarrow> ''set_commits''
                    | FinalizeRelease \<Rightarrow> ''finalize_release''
                    | AddDeploy \<Rightarrow> ''deploy'')) of
                   None \<Rightarrow> []
                 | Some sp \<Rightarrow> [SpanFinish sp])
            \<and> snd (run_step s options ctx releaseName) =
                (case cli_outcome ctx c of None \<Rightarrow> Inr () | Some e \<Rightarrow> Inl e)))"
  by (cases s)
     (auto simp: run_step_def skipped_def step_logs finish_events_def split: option.splits)

theorem span_wraps_external_call_witness:
  "skipped CleanArtifacts no_steps_options
   \<and> span_view (fst (run_step CleanArtifacts no_steps_options failing_ctx ''1.0.0'')) = []
   \<and> \<not> skipped CleanArtifacts all_steps_options
   \<and> span_view (fst (run_step CleanArtifacts all_steps_options failing_ctx ''1.0.0'')) =
       [AddSpan ''function.plugin.clean_artifacts'',
        CliCall (ReleasesExecute [''releases'', ''files'', ''1.0.0'', ''delete'', ''--all''] True),
        SpanFinish (Span 0)]
   \<and> snd (run_step CleanArtifacts all_steps_options failing_ctx ''1.0.0'') = Inl ''ECONNREFUSED''
   \<and> span_view (fst (run_step CleanArtifacts all_steps_options healthy_ctx ''1.0.0'')) =
       [AddSpan ''function.plugin.clean_artifacts'',
        CliCall (ReleasesExecute [''releases'', ''files'', ''1.0.0'', ''delete'', ''--all''] True),
        SpanFinish (Span 0)]
   \<and> snd (run_step CleanArtifacts all_steps_options healthy_ctx ''1.0.0'') = Inr ()
   \<and> span_view (fst (run_step CleanArtifacts all_steps_options untraced_ctx ''1.0.0'')) =
       [AddSpan ''function.plugin.clean_artifacts'',
        CliCall (ReleasesExecute [''releases'', ''files'', ''1.0.0'', ''delete'', ''--all''] True)]"
proof -
  let ?call = "ReleasesExecute [''releases'', ''files'', ''1.0.0'', ''delete'', ''--all''] True"
  have off: "skipped CleanArtifacts no_steps_options"
    by (simp add: skipped_def no_steps_options_def)
  have on: "\<not> skipped CleanArtifacts all_steps_options"
    by (simp add: skipped_def all_steps_options_def)
  have span: "span_for failing_ctx op = Some (Span 0)" "span_for healthy_ctx op = Some (Span 0)"
    "span_for untraced_ctx op = None" for op
    by (simp_all add: failing_ctx_def healthy_ctx_def untraced_ctx_def)
  have outcome: "cli_outcome failing_ctx c = Some ''ECONNREFUSED''" "cli_outcome healthy_ctx c = None"
    for c
    by (simp_all add: failing_ctx_def healthy_ctx_def)
  have call: "cli_calls (fst (run_step CleanArtifacts all_steps_options ctx ''1.0.0'')) = [?call]"
    for ctx :: "string BuildContext"
    by (simp add: run_step_def cleanArtifacts_log all_steps_options_def split: option.splits)
  have view: "cli_calls (span_view t) = cli_calls t" for t
    by (induction t rule: span_view.induct) simp_all
  have unspanned: "span_view (fst (run_step CleanArtifacts no_steps_options failing_ctx ''1.0.0'')) = []"
    using span_wraps_external_call [of CleanArtifacts no_steps_options failing_ctx "''1.0.0''"] off
    by simp
  have spanned: "span_view (fst (run_step CleanArtifacts all_steps_options ctx ''1.0.0'')) =
        [AddSpan ''function.plugin.clean_artifacts'', CliCall ?call] @
        (case span_for ctx ''function.plugin.clean_artifacts'' of
           None \<Rightarrow> [] | Some sp \<Rightarrow> [SpanFinish sp])
      \<and> snd (run_step CleanArtifacts all_steps_options ctx ''1.0.0'') =
          (case cli_outcome ctx ?call of None \<Rightarrow> Inr () | Some e \<Rightarrow> Inl e)"
    for ctx :: "string BuildContext"
  proof -
    from span_wraps_external_call [of CleanArtifacts all_steps_options ctx "''1.0.0''"] on
    obtain c where c: "span_view (fst (run_step CleanArtifacts all_steps_options ctx ''1.0.0'')) =
        [AddSpan ''function.plugin.clean_artifacts'', CliCall c] @
        (case span_for ctx ''function.plugin.clean_artifacts'' of
           None \<Rightarrow> [] | Some sp \<Rightarrow> [SpanFinish sp])"
      "snd (run_step CleanArtifacts all_steps_options ctx ''1.0.0'') =
        (case cli_outcome ctx c of None \<Rightarrow> Inr () | Some e \<Rightarrow> Inl e)"
      by auto
    from arg_cong [OF c(1), of cli_calls] have "c = ?call"
      by (simp add: view call split: option.splits)
    with c show ?thesis by simp
  qed
  from spanned [of failing_ctx] spanned [of healthy_ctx] spanned [of untraced_ctx]
    span outcome unspanned off on
  show ?thesis by simp
qed

text \<open>
  Claim C7. With \<^verbatim>\<open>finalize\<close> false the finalize step, and with \<^verbatim>\<open>deploy\<close> absent the deploy
  step, makes no external call, adds one info-level breadcrumb that says it is skipping,
  logs one debug line and returns. The other three skippable steps, when skipped, log
  one debug line and add no breadcrumb.
\<close>

theorem skip_breadcrumbs_only_for_finalize_and_deploy:
  "(\<not> opt_finalize options \<longrightarrow>
      finalizeRelease options ctx releaseName =
        ([AddBreadcrumb \<lparr>level = ''info'', message = ''Skipping release finalization.''\<rparr>,
          LoggerDebug ''Skipping release finalization.''], Inr ()))
   \<and> (opt_deploy options = None \<longrightarrow>
      addDeploy options ctx releaseName =
        ([AddBreadcrumb \<lparr>level = ''info'', message = ''Skipping adding deploy info to release.''\<rparr>,
          LoggerDebug ''Skipping adding deploy info to release.''], Inr ()))
   \<and> (\<not> opt_cleanArtifacts options \<longrightarrow>
      cleanArtifacts options ctx releaseName = ([LoggerDebug ''Skipping artifact cleanup.''], Inr ()))
   \<and> (\<not> opt_uploadSourceMaps options \<longrightarrow>
      uploadSourceMaps options ctx releaseName = ([LoggerDebug ''Skipping source maps upload.''], Inr ()))
   \<and> (opt_setCommits options = None \<longrightarrow>
      setCommits options ctx releaseName =
        ([LoggerDebug ''Skipping setting commits to release.''], Inr ()))"
  by (simp add: step_logs)

theorem skip_breadcrumbs_only_for_finalize_and_deploy_witness:
  "\<not> opt_finalize no_steps_options \<and> opt_deploy no_steps_options = None
   \<and> \<not> opt_cleanArtifacts no_steps_options \<and> \<not> opt_uploadSourceMaps no_steps_options
   \<and> opt_setCommits no_steps_options = None
   \<and> cli_calls (fst (finalizeRelease no_steps_options failing_ctx ''1.0.0'')) = []
   \<and> breadcrumbs (fst (finalizeRelease no_steps_options failing_ctx ''1.0.0'')) =
        [\<lparr>level = ''info'', message = ''Skipping release finalization.''\<rparr>]
   \<and> debug_logs (fst (finalizeRelease no_steps_options failing_ctx ''1.0.0'')) =
        [''Skipping release finalization.'']
   \<and> cli_calls (fst (addDeploy no_steps_options failing_ctx ''1.0.0'')) = []
   \<and> breadcrumbs (fst (addDeploy no_steps_options failing_ctx ''1.0.0'')) =
        [\<lparr>level = ''info'', message = ''Skipping adding deploy info to release.''\<rparr>]
   \<and> breadcrumbs (fst (cleanArtifacts no_steps_options failing_ctx ''1.0.0'')) = []
   \<and> breadcrumbs (fst (uploadSourceMaps no_steps_options failing_ctx ''1.0.0'')) = []
   \<and> breadcrumbs (fst (setCommits no_steps_options failing_ctx ''1.0.0'')) = []"
proof -
  have off: "\<not> opt_finalize no_steps_options" "opt_deploy no_steps_options = None"
    "\<not> opt_cleanArtifacts no_steps_options" "\<not> opt_uploadSourceMaps no_steps_options"
    "opt_setCommits no_steps_options = None"
    by (simp_all add: no_steps_options_def)
  from skip_breadcrumbs_only_for_finalize_and_deploy
         [of no_steps_options failing_ctx "''1.0.0''"] off
  show ?thesis by simp
qed

text \<open>
  Claim C8. When its call resolves, the set-commits step logs one info line and adds no
  breadcrumb; each of the other five steps adds one info-level success breadcrumb and
  logs the same message at info level (after the announcement, in the upload step).
\<close>

theorem success_breadcrumb_except_set_commits:
  assumes "CliCall c \<in> set (fst (run_step s options ctx releaseName))"
      and "cli_outcome ctx c = None"
  shows "snd (run_step s options ctx releaseName) = Inr ()
       \<and> breadcrumbs (fst (run_step s options ctx releaseName)) =
           (case s of
              CreateRelease \<Rightarrow> [\<lparr>level = ''info'', message = ''Successfully created release.''\<rparr>]
            | CleanArtifacts \<Rightarrow>
                [\<lparr>level = ''info'', message = ''Successfully cleaned previous artifacts.''\<rparr>]
            | UploadSourceMaps \<Rightarrow>
                [\<lparr>level = ''info'', message = ''Successfully uploaded source maps.''\<rparr>]
            | SetCommits \<Rightarrow> []
            | FinalizeRelease \<Rightarrow> [\<lparr>level = ''info'', message = ''Successfully finalized release.''\<rparr>]
            | AddDeploy \<Rightarrow> [\<lparr>level = ''info'', message = ''Successfully added deploy.''\<rparr>])
       \<and> info_logs (fst (run_step s options ctx releaseName)) =
           (case s of
              CreateRelease \<Rightarrow> [''Successfully created release.'']
            | CleanArtifacts \<Rightarrow> [''Successfully cleaned previous artifacts.'']
            | UploadSourceMaps \<Rightarrow> [''Uploading Sourcemaps.'', ''Successfully uploaded source maps.'']
            | SetCommits \<Rightarrow> [''Successfully set commits.'']
            | FinalizeRelease \<Rightarrow> [''Successfully finalized release.'']
            | AddDeploy \<Rightarrow> [''Successfully added deploy.''])
       \<and> captured (fst (run_step s options ctx releaseName)) = []"
  using assms
  by (cases s) (auto simp: run_step_def step_logs split: if_splits option.splits)

theorem success_breadcrumb_except_set_commits_witness:
  "CliCall (ReleasesSetCommits ''1.0.0''
       \<lparr>sc_auto = JSBool True, sc_repo = JSUndefined, sc_commit = JSUndefined,
        sc_previousCommit = JSUndefined, sc_ignoreMissing = JSUndefined,
        sc_ignoreEmpty = JSUndefined\<rparr>)
     \<in> set (fst (run_step SetCommits all_steps_options healthy_ctx ''1.0.0''))
   \<and> snd (run_step SetCommits all_steps_options healthy_ctx ''1.0.0'') = Inr ()
   \<and> breadcrumbs (fst (run_step SetCommits all_steps_options healthy_ctx ''1.0.0'')) = []
   \<and> info_logs (fst (run_step SetCommits all_steps_options healthy_ctx ''1.0.0'')) =
        [''Successfully set commits.'']
   \<and> captured (fst (run_step SetCommits all_steps_options healthy_ctx ''1.0.0'')) = []"
proof -
  have called: "CliCall (ReleasesSetCommits ''1.0.0''
       \<lparr>sc_auto = JSBool True, sc_repo = JSUndefined, sc_commit = JSUndefined,
        sc_previousCommit = JSUndefined, sc_ignoreMissing = JSUndefined,
        sc_ignoreEmpty = JSUndefined\<rparr>)
     \<in> set (fst (run_step SetCommits all_steps_options healthy_ctx ''1.0.0''))"
    by (simp add: run_step_def setCommits_log all_steps_options_def healthy_ctx_def)
  have resolved: "cli_outcome healthy_ctx c = None" for c
    by (simp add: healthy_ctx_def)
  from success_breadcrumb_except_set_commits [OF called resolved] called
  show ?thesis by simp
qed


section \<open>Properties of the plugins\<close>

lemma uuidv4_output [simp]: "rng_output (snd (uuidv4 g)) = rng_output g"
  by (simp add: uuidv4_def)

lemma uuidv4_drawn [simp]: "rng_drawn (snd (uuidv4 g)) = Suc (rng_drawn g)"
  by (simp add: uuidv4_def)

lemma uuidv4_value [simp]: "fst (uuidv4 g) = rng_output g (rng_drawn g)"
  by (simp add: uuidv4_def)

lemma onResolve_stub_eval:
  "debugIdInjection_onResolve_stub args g =
     (Some \<lparr>rr_pluginName = ''sentry-esbuild-debug-id-injection-plugin'', rr_path = ra_path args,
            rr_namespace = Some ''sentry-debug-id-stub'',
            rr_suffix = Some (''?sentry-module-id='' @ rng_output g (rng_drawn g)),
            rr_sideEffects = Some True, rr_pluginData = None\<rparr>, snd (uuidv4 g))"
  by (simp add: debugIdInjection_onResolve_stub_def debugIdInjection_pluginName_def
      stubNamespace_def uuidv4_def)

lemma onLoad_stub_eval:
  "debugIdInjection_onLoad_stub f args g =
     (Inr \<lparr>lr_loader = ''js'', lr_pluginName = ''sentry-esbuild-debug-id-injection-plugin'',
           lr_contents = f (rng_output g (rng_drawn g)), lr_resolveDir = None\<rparr>, snd (uuidv4 g))"
  by (simp add: debugIdInjection_onLoad_stub_def debugIdInjection_pluginName_def uuidv4_def)

lemma serve_stub_Resolve:
  "fst (serve_stub f (ResolveStub a # reqs) g) =
     Resolved (fst (debugIdInjection_onResolve_stub a g)) # fst (serve_stub f reqs (snd (uuidv4 g)))"
  by (simp add: onResolve_stub_eval split: prod.splits)

lemma serve_stub_Load:
  "fst (serve_stub f (LoadStub a # reqs) g) =
     Loaded (fst (debugIdInjection_onLoad_stub f a g)) # fst (serve_stub f reqs (snd (uuidv4 g)))"
  by (simp add: onLoad_stub_eval split: prod.splits)

text \<open>
  The values a sequence of requests draws come from the part of the generator that is
  still ahead, one per request; this is what keeps them apart.
\<close>

lemma resolved_suffixes_tokens:
  "\<exists>ids. distinct ids \<and> set ids \<subseteq> rng_output g ` {rng_drawn g..}
       \<and> resolved_suffixes (fst (serve_stub f reqs g)) = map ((@) ''?sentry-module-id='') ids"
  if "inj (rng_output g)"
  using that
proof (induction reqs arbitrary: g)
  case Nil
  show ?case by simp
next
  case (Cons r reqs)
  let ?g = "snd (uuidv4 g)"
  from Cons.prems have "inj (rng_output ?g)" by simp
  from Cons.IH [OF this] obtain ids where ids: "distinct ids"
    "set ids \<subseteq> rng_output g ` {Suc (rng_drawn g)..}"
    "resolved_suffixes (fst (serve_stub f reqs ?g)) = map ((@) ''?sentry-module-id='') ids"
    by auto
  have fresh: "rng_output g (rng_drawn g) \<notin> set ids"
  proof
    assume "rng_output g (rng_drawn g) \<in> set ids"
    with ids(2) obtain k where "Suc (rng_drawn g) \<le> k" "rng_output g (rng_drawn g) = rng_output g k"
      by auto
    with Cons.prems show False by (auto dest: injD)
  qed
  have later: "rng_output g ` {Suc (rng_drawn g)..} \<subseteq> rng_output g ` {rng_drawn g..}"
    by auto
  show ?case
  proof (cases r)
    case (ResolveStub a)
    have "resolved_suffixes (fst (serve_stub f (r # reqs) g)) =
        map ((@) ''?sentry-module-id='') (rng_output g (rng_drawn g) # ids)"
      by (simp del: serve_stub.simps add: ResolveStub serve_stub_Resolve onResolve_stub_eval ids(3))
    moreover have "distinct (rng_output g (rng_drawn g) # ids)"
      using ids(1) fresh by simp
    moreover have "set (rng_output g (rng_drawn g) # ids) \<subseteq> rng_output g ` {rng_drawn g..}"
      using ids(2) later by auto
    ultimately show ?thesis by blast
  next
    case (LoadStub a)
    have "resolved_suffixes (fst (serve_stub f (r # reqs) g)) = map ((@) ''?sentry-module-id='') ids"
      by (simp del: serve_stub.simps add: LoadStub serve_stub_Load onLoad_stub_eval ids(3))
    moreover have "set ids \<subseteq> rng_output g ` {rng_drawn g..}"
      using ids(2) later by auto
    ultimately show ?thesis using ids(1) by blast
  qed
qed

lemma loaded_contents_identifiers:
  "\<exists>ids. distinct ids \<and> set ids \<subseteq> rng_output g ` {rng_drawn g..}
       \<and> loaded_contents (fst (serve_stub f reqs g)) = map f ids"
  if "inj (rng_output g)"
  using that
proof (induction reqs arbitrary: g)
  case Nil
  show ?case by simp
next
  case (Cons r reqs)
  let ?g = "snd (uuidv4 g)"
  from Cons.prems have "inj (rng_output ?g)" by simp
  from Cons.IH [OF this] obtain ids where ids: "distinct ids"
    "set ids \<subseteq> rng_output g ` {Suc (rng_drawn g)..}"
    "loaded_contents (fst (serve_stub f reqs ?g)) = map f ids"
    by auto
  have fresh: "rng_output g (rng_drawn g) \<notin> set ids"
  proof
    assume "rng_output g (rng_drawn g) \<in> set ids"
    with ids(2) obtain k where "Suc (rng_drawn g) \<le> k" "rng_output g (rng_drawn g) = rng_output g k"
      by auto
    with Cons.prems show False by (auto dest: injD)
  qed
  have later: "rng_output g ` {Suc (rng_drawn g)..} \<subseteq> rng_output g ` {rng_drawn g..}"
    by auto
  show ?case
  proof (cases r)
    case (LoadStub a)
    have "loaded_contents (fst (serve_stub f (r # reqs) g)) = map f (rng_output g (rng_drawn g) # ids)"
      by (simp del: serve_stub.simps add: LoadStub serve_stub_Load onLoad_stub_eval ids(3))
    moreover have "distinct (rng_output g (rng_drawn g) # ids)"
      using ids(1) fresh by simp
    moreover have "set (rng_output g (rng_drawn g) # ids) \<subseteq> rng_output g ` {rng_drawn g..}"
      using ids(2) later by auto
    ultimately show ?thesis by blast
  next
    case (ResolveStub a)
    have "loaded_contents (fst (serve_stub f (r # reqs) g)) = map f ids"
      by (simp del: serve_stub.simps add: ResolveStub serve_stub_Resolve onResolve_stub_eval ids(3))
    moreover have "set ids \<subseteq> rng_output g ` {rng_drawn g..}"
      using ids(2) later by auto
    ultimately show ?thesis using ids(1) by blast
  qed
qed

lemma counting_rng_inj: "inj (rng_output counting_rng)"
  by (auto simp: counting_rng_def inj_def dest: arg_cong [where f = length])

text \<open>
  Claim C1. Every resolution of the stub path returns the path in the stub namespace with
  the suffix \<^verbatim>\<open>?sentry-module-id=\<close> followed by the value \<^verbatim>\<open>uuidv4()\<close> returns at that moment,
  and every load of the stub returns the snippet of the value \<^verbatim>\<open>uuidv4()\<close> returns at that
  moment; each of the two draws a new value. With a generator that never repeats a value,
  in any sequence of stub resolutions and loads all suffixes differ and the snippets are
  built from pairwise different identifiers, so no two entry points share one.
\<close>

theorem stub_is_fresh_per_resolution_and_load:
  assumes "inj (rng_output g)"
  shows "fst (debugIdInjection_onResolve_stub args g) =
           Some \<lparr>rr_pluginName = ''sentry-esbuild-debug-id-injection-plugin'',
                 rr_path = ra_path args, rr_namespace = Some ''sentry-debug-id-stub'',
                 rr_suffix = Some (''?sentry-module-id='' @ fst (uuidv4 g)),
                 rr_sideEffects = Some True, rr_pluginData = None\<rparr>
       \<and> snd (debugIdInjection_onResolve_stub args g) = snd (uuidv4 g)
       \<and> fst (debugIdInjection_onLoad_stub getDebugIdSnippet largs g) =
           Inr \<lparr>lr_loader = ''js'', lr_pluginName = ''sentry-esbuild-debug-id-injection-plugin'',
                lr_contents = getDebugIdSnippet (fst (uuidv4 g)), lr_resolveDir = None\<rparr>
       \<and> snd (debugIdInjection_onLoad_stub getDebugIdSnippet largs g) = snd (uuidv4 g)
       \<and> fst (uuidv4 (snd (uuidv4 g))) \<noteq> fst (uuidv4 g)
       \<and> distinct (resolved_suffixes (fst (serve_stub getDebugIdSnippet reqs g)))
       \<and> (\<exists>ids. distinct ids
              \<and> loaded_contents (fst (serve_stub getDebugIdSnippet reqs g)) = map getDebugIdSnippet ids)"
proof -
  from resolved_suffixes_tokens [OF assms, of getDebugIdSnippet reqs]
  obtain tokens where "distinct tokens"
    "resolved_suffixes (fst (serve_stub getDebugIdSnippet reqs g)) =
       map ((@) ''?sentry-module-id='') tokens"
    by blast
  then have "distinct (resolved_suffixes (fst (serve_stub getDebugIdSnippet reqs g)))"
    by (simp add: distinct_map inj_on_def)
  moreover from loaded_contents_identifiers [OF assms, of getDebugIdSnippet reqs]
  have "\<exists>ids. distinct ids
      \<and> loaded_contents (fst (serve_stub getDebugIdSnippet reqs g)) = map getDebugIdSnippet ids"
    by blast
  moreover have "fst (uuidv4 (snd (uuidv4 g))) \<noteq> fst (uuidv4 g)"
    using assms by (auto dest: injD)
  ultimately show ?thesis
    by (simp add: onResolve_stub_eval onLoad_stub_eval)
qed

theorem stub_is_fresh_per_resolution_and_load_witness:
  "inj (rng_output counting_rng)
   \<and> resolved_suffixes (fst (serve_stub example_snippet
        [ResolveStub stub_import, LoadStub stub_load, ResolveStub stub_import, LoadStub stub_load]
        counting_rng)) = [''?sentry-module-id=id-'', ''?sentry-module-id=id-xx'']
   \<and> loaded_contents (fst (serve_stub example_snippet
        [ResolveStub stub_import, LoadStub stub_load, ResolveStub stub_import, LoadStub stub_load]
        counting_rng)) = [''_sentryDebugIds=id-x'', ''_sentryDebugIds=id-xxx'']
   \<and> distinct (resolved_suffixes (fst (serve_stub example_snippet
        [ResolveStub stub_import, LoadStub stub_load, ResolveStub stub_import, LoadStub stub_load]
        counting_rng)))"
proof -
  have run: "fst (serve_stub example_snippet
        [ResolveStub stub_import, LoadStub stub_load, ResolveStub stub_import, LoadStub stub_load]
        counting_rng) =
      [Resolved (Some \<lparr>rr_pluginName = ''sentry-esbuild-debug-id-injection-plugin'',
                 rr_path = ''_sentry-debug-id-injection-stub'',
                 rr_namespace = Some ''sentry-debug-id-stub'',
                 rr_suffix = Some ''?sentry-module-id=id-'',
                 rr_sideEffects = Some True, rr_pluginData = None\<rparr>),
       Loaded (Inr \<lparr>lr_loader = ''js'', lr_pluginName = ''sentry-esbuild-debug-id-injection-plugin'',
                lr_contents = ''_sentryDebugIds=id-x'', lr_resolveDir = None\<rparr>),
       Resolved (Some \<lparr>rr_pluginName = ''sentry-esbuild-debug-id-injection-plugin'',
                 rr_path = ''_sentry-debug-id-injection-stub'',
                 rr_namespace = Some ''sentry-debug-id-stub'',
                 rr_suffix = Some ''?sentry-module-id=id-xx'',
                 rr_sideEffects = Some True, rr_pluginData = None\<rparr>),
       Loaded (Inr \<lparr>lr_loader = ''js'', lr_pluginName = ''sentry-esbuild-debug-id-injection-plugin'',
                lr_contents = ''_sentryDebugIds=id-xxx'', lr_resolveDir = None\<rparr>)]"
    by (simp add: onResolve_stub_eval onLoad_stub_eval uuidv4_def counting_rng_def
        example_snippet_def stub_import_def numeral_2_eq_2 numeral_3_eq_3)
  from stub_is_fresh_per_resolution_and_load
         [OF counting_rng_inj, of stub_import example_snippet stub_load
           "[ResolveStub stub_import, LoadStub stub_load, ResolveStub stub_import, LoadStub stub_load]"]
  have "distinct (resolved_suffixes (fst (serve_stub example_snippet
        [ResolveStub stub_import, LoadStub stub_load, ResolveStub stub_import, LoadStub stub_load]
        counting_rng)))"
    by blast
  with counting_rng_inj run show ?thesis by simp
qed




text \<open>
  Claim C5. At the end of a build the upload callback is called exactly once: with the
  output paths of the manifest, in the manifest's order, when the manifest is present,
  and with the empty list when it is absent. The completion of the callback is the
  completion of the hook, so an error the callback throws propagates.
\<close>

theorem upload_called_once_with_outputs:
  "length (fst (debugIdUpload_onEnd upload result)) = 1
   \<and> (\<forall>m. br_metafile result = Some m \<longrightarrow>
        fst (debugIdUpload_onEnd upload result) = [Upload (map fst (mf_outputs m))])
   \<and> (br_metafile result = None \<longrightarrow> fst (debugIdUpload_onEnd upload result) = [Upload []])
   \<and> (\<forall>buildArtifacts. fst (debugIdUpload_onEnd upload result) = [Upload buildArtifacts] \<longrightarrow>
        snd (debugIdUpload_onEnd upload result) =
          (case upload buildArtifacts of None \<Rightarrow> Inr () | Some e \<Rightarrow> Inl e))"
  by (auto simp: debugIdUpload_onEnd_def await_upload_def object_keys_def Let_def
      split: option.splits)

theorem upload_called_once_with_outputs_witness:
  "br_metafile two_outputs = Some \<lparr>mf_outputs = [(''a.js'', 120), (''b.js'', 64)]\<rparr>
   \<and> fst (debugIdUpload_onEnd failing_upload two_outputs) = [Upload [''a.js'', ''b.js'']]
   \<and> snd (debugIdUpload_onEnd failing_upload two_outputs) = Inl ''upload failed''
   \<and> br_metafile no_metafile = None
   \<and> fst (debugIdUpload_onEnd failing_upload no_metafile) = [Upload []]"
proof -
  have present: "br_metafile two_outputs = Some \<lparr>mf_outputs = [(''a.js'', 120), (''b.js'', 64)]\<rparr>"
    by (simp add: two_outputs_def)
  have absent: "br_metafile no_metafile = None"
    by (simp add: no_metafile_def)
  from upload_called_once_with_outputs [of failing_upload two_outputs] present
       upload_called_once_with_outputs [of failing_upload no_metafile] absent
  show ?thesis
    by (simp add: failing_upload_def)
qed

text \<open>
  Claim C9. The resolver of the release injection stub returns the path it was given with
  no suffix and no namespace, and draws nothing from the random source; the loader returns
  the injection code it was built with, whatever the arguments and the moment, so two
  loads return identical contents. The resolver of the debug-id stub differs on both
  counts: its result carries a suffix and it advances the random source.
\<close>

theorem release_injection_is_shared_and_fixed:
  "releaseInjection_onResolve args g =
     (Some \<lparr>rr_pluginName = ''sentry-esbuild-release-injection-plugin'', rr_path = ra_path args,
            rr_namespace = None, rr_suffix = None, rr_sideEffects = Some True,
            rr_pluginData = None\<rparr>, g)
   \<and> releaseInjection_onLoad injectionCode largs g =
       (Inr \<lparr>lr_loader = ''js'', lr_pluginName = ''sentry-esbuild-release-injection-plugin'',
             lr_contents = injectionCode, lr_resolveDir = None\<rparr>, g)
   \<and> fst (releaseInjection_onLoad injectionCode largs g) =
       fst (releaseInjection_onLoad injectionCode largs' g')
   \<and> fst (releaseInjection_onResolve args g) = fst (releaseInjection_onResolve args g')
   \<and> fst (debugIdInjection_onResolve_stub args g) \<noteq> fst (releaseInjection_onResolve args g')
   \<and> snd (debugIdInjection_onResolve_stub args g) \<noteq> g"
  by (auto simp: releaseInjection_onResolve_def releaseInjection_onLoad_def
      releaseInjection_pluginName_def onResolve_stub_eval uuidv4_def
      dest: arg_cong [where f = rng_drawn])

text \<open>
  Claim C10. The setup of the upload plugin sets \<^verbatim>\<open>initialOptions.metafile\<close> to true whatever
  it was, leaves \<^verbatim>\<open>inject\<close> alone, and registers the end-of-build hook; that hook passes the
  empty list for want of a manifest only when the result has none, and the manifest's
  output paths otherwise. The setup of the release injection plugin appends the resolved
  stub path to \<^verbatim>\<open>initialOptions.inject\<close>, keeping the entries already there and starting from
  the empty list when there are none, and leaves \<^verbatim>\<open>metafile\<close> alone.
\<close>

theorem setup_changes_initial_options:
  "bo_metafile (initialOptions (esbuildDebugIdUploadPlugin_setup upload build)) = Some True
   \<and> bo_inject (initialOptions (esbuildDebugIdUploadPlugin_setup upload build)) =
       bo_inject (initialOptions build)
   \<and> (\<forall>entries. bo_inject (initialOptions build) = Some entries \<longrightarrow>
        bo_inject (initialOptions (esbuildReleaseInjectionPlugin_setup path_resolve injectionCode build)) =
          Some (entries @ [path_resolve ''_sentry-release-injection-stub'']))
   \<and> (bo_inject (initialOptions build) = None \<longrightarrow>
        bo_inject (initialOptions (esbuildReleaseInjectionPlugin_setup path_resolve injectionCode build)) =
          Some [path_resolve ''_sentry-release-injection-stub''])
   \<and> bo_metafile (initialOptions (esbuildReleaseInjectionPlugin_setup path_resolve injectionCode build)) =
       bo_metafile (initialOptions build)
   \<and> onEnd (esbuildDebugIdUploadPlugin_setup upload build) = onEnd build @ [debugIdUpload_onEnd upload]
   \<and> (\<forall>m. br_metafile result = Some m \<longrightarrow>
        fst (debugIdUpload_onEnd upload result) = [Upload (map fst (mf_outputs m))])
   \<and> (br_metafile result = None \<longrightarrow> fst (debugIdUpload_onEnd upload result) = [Upload []])"
  by (auto simp: esbuildDebugIdUploadPlugin_setup_def esbuildReleaseInjectionPlugin_setup_def
      debugIdUpload_onEnd_def await_upload_def object_keys_def Let_def split: option.splits)

theorem setup_changes_initial_options_witness:
  "bo_inject (initialOptions initial_build) = Some [''./polyfill.js'']
   \<and> bo_metafile (initialOptions initial_build) = Some False
   \<and> bo_metafile (initialOptions (esbuildDebugIdUploadPlugin_setup failing_upload initial_build)) = Some True
   \<and> bo_inject (initialOptions
        (esbuildReleaseInjectionPlugin_setup ((@) ''/app/'') ''var release = 1;'' initial_build)) =
       Some [''./polyfill.js'', ''/app/_sentry-release-injection-stub'']
   \<and> br_metafile no_metafile = None
   \<and> fst (debugIdUpload_onEnd failing_upload no_metafile) = [Upload []]"
proof -
  have given: "bo_inject (initialOptions initial_build) = Some [''./polyfill.js'']"
    "bo_metafile (initialOptions initial_build) = Some False"
    by (simp_all add: initial_build_def)
  have absent: "br_metafile no_metafile = None"
    by (simp add: no_metafile_def)
  from setup_changes_initial_options
         [of failing_upload initial_build "(@) ''/app/''" "''var release = 1;''" no_metafile]
       given absent
  show ?thesis by simp
qed


end
